theory Spec2Isabelle
  imports Complex_Main "HOL-Library.Sublist"
begin

section \<open>The forecast cache of fmiproxy\<close>

text \<open>
  The module keeps a grid of forecast points in the variable \<open>cachedForecasts\<close>.
  \<open>refreshFrom\<close> rebuilds the grid from a GRIB file (bounds, lattice, one extraction per
  lattice point) and assigns the result to the variable; \<open>getForecasts\<close> answers a query
  for a bounding box and a start time from the cached grid.

  Numbers. A JavaScript number is an IEEE double. A finite double is the rational it
  denotes (\<^typ>\<open>rat\<close>), and every sum, difference, product and quotient the module
  computes is the exact result rounded to the nearest double, a tie going to the even
  significand (\<open>toDouble\<close>); \<open>Math.round\<close> and \<open>Math.ceil\<close> are exact, as the language
  standard has them. Values that are not finite numbers and that the code can meet
  (\<open>NaN\<close> from \<open>parseFloat\<close>, \<open>undefined\<close> from an array read past the end) are constructors
  of \<open>jsval\<close>. Not represented: results of magnitude \<open>2^1024\<close> and more (infinite in the
  program) and the sign of zero. The containment test of the query is written with
  exact operations: on the rectangle of a query box every product it forms has the
  factor zero, so nothing is rounded there.

  Objects. The objects held by \<open>cachedForecasts\<close> are shared between the cache and every
  query result, and \<open>getForecasts\<close> assigns to a field of them, so they live in an
  explicit store addressed by references. The objects built during a refresh are
  reachable from the pipeline only until the assignment to \<open>cachedForecasts\<close>; they are
  carried as values and enter the store at that assignment.
\<close>

subsection \<open>Data\<close>

datatype jsval = Undefined | NaN | Num rat

record 'n latlng =
  lat :: 'n
  lng :: 'n

record 'n bounds =
  swCorner :: "'n latlng"
  neCorner :: "'n latlng"

record item =
  time :: int
  payload :: string

record forecast = "rat latlng" +
  items :: "item list"

record geopoint =
  latitude :: rat
  longitude :: rat

type_synonym ref = nat

type_synonym error = string

record state =
  store :: "ref \<Rightarrow> forecast"
  nextRef :: ref
  cachedForecasts :: "ref list"

subsection \<open>Double arithmetic\<close>

text \<open>
  \<open>bitlength n\<close> is the number of binary digits of a positive integer, \<open>floorLog2 x\<close> the
  exponent \<open>e\<close> with \<open>2^e \<le> x < 2^(e + 1)\<close> for a positive rational. \<open>toDouble x\<close> rounds \<open>x\<close> to
  a multiple of the spacing of the doubles around it, which is \<open>2^(e - 52)\<close> and never
  less than \<open>2^(-1074)\<close>.
\<close>

function bitlength :: "int \<Rightarrow> int" where
  "bitlength n = (if n \<le> 0 then 0 else 1 + bitlength (n div 2))"
  by pat_completeness auto
termination
  by (relation "measure nat") auto

definition pow2 :: "int \<Rightarrow> rat" where
  "pow2 e = (if 0 \<le> e then 2 ^ nat e else 1 / 2 ^ nat (- e))"

definition floorLog2 :: "rat \<Rightarrow> int" where
  "floorLog2 x =
     (let (p, q) = quotient_of x;
          e0 = bitlength p - bitlength q
      in if pow2 e0 \<le> x then e0 else e0 - 1)"

definition roundHalfEven :: "rat \<Rightarrow> int" where
  "roundHalfEven x =
     (let f = \<lfloor>x\<rfloor>; d = x - of_int f
      in if d < 1 / 2 then f
         else if 1 / 2 < d then f + 1
         else if even f then f else f + 1)"

definition toDouble :: "rat \<Rightarrow> rat" where
  "toDouble x =
     (if x = 0 then 0
      else (let u = pow2 (max (floorLog2 \<bar>x\<bar> - 52) (- 1074))
            in sgn x * of_int (roundHalfEven (\<bar>x\<bar> / u)) * u))"

definition fadd :: "rat \<Rightarrow> rat \<Rightarrow> rat" where
  "fadd a b = toDouble (a + b)"

definition fsub :: "rat \<Rightarrow> rat \<Rightarrow> rat" where
  "fsub a b = toDouble (a - b)"

definition fmul :: "rat \<Rightarrow> rat \<Rightarrow> rat" where
  "fmul a b = toDouble (a * b)"

definition fdiv :: "rat \<Rightarrow> rat \<Rightarrow> rat" where
  "fdiv a b = toDouble (a / b)"

subsection \<open>Language and library functions used by the module\<close>

text \<open>
  \<open>String.prototype.trim\<close> and \<open>String.prototype.split\<close> with a one-character separator,
  on ASCII strings. \<open>split\<close> never returns an empty array: the empty string splits into
  one empty piece.
\<close>

definition isSpace :: "char \<Rightarrow> bool" where
  "isSpace c = (c \<in> set [CHR '' '', CHR 0x09, CHR 0x0A, CHR 0x0B, CHR 0x0C, CHR 0x0D])"

definition trim :: "string \<Rightarrow> string" where
  "trim s = rev (dropWhile isSpace (rev (dropWhile isSpace s)))"

fun split :: "char \<Rightarrow> string \<Rightarrow> string list" where
  "split sep [] = [[]]"
| "split sep (c # cs) =
     (if c = sep then [] # split sep cs
      else (case split sep cs of
              [] \<Rightarrow> [[c]]
            | w # ws \<Rightarrow> (c # w) # ws))"

text \<open>
  \<open>parseFloat\<close>: leading white space is skipped, then the longest prefix that is a decimal
  literal (sign, digits, fraction, exponent) is read; what follows is ignored; the result
  is the double nearest to the value read, and \<open>NaN\<close> when there is no digit. The literal
  \<open>Infinity\<close> is outside the model.
\<close>

definition isDigit :: "char \<Rightarrow> bool" where
  "isDigit c = (c \<in> set ''0123456789'')"

definition digitVal :: "char \<Rightarrow> nat" where
  "digitVal c = of_char c - 48"

definition digitsVal :: "string \<Rightarrow> nat" where
  "digitsVal ds = foldl (\<lambda>a c. 10 * a + digitVal c) 0 ds"

definition readSign :: "string \<Rightarrow> bool \<times> string" where
  "readSign s =
     (case s of
        [] \<Rightarrow> (False, [])
      | c # r \<Rightarrow> if c = CHR ''-'' then (True, r)
                 else if c = CHR ''+'' then (False, r)
                 else (False, s))"

definition readFraction :: "string \<Rightarrow> string \<times> string" where
  "readFraction s =
     (case s of
        [] \<Rightarrow> ([], [])
      | c # r \<Rightarrow> if c = CHR ''.'' then (takeWhile isDigit r, dropWhile isDigit r)
                 else ([], s))"

definition readExponent :: "string \<Rightarrow> int" where
  "readExponent s =
     (case s of
        [] \<Rightarrow> 0
      | c # r \<Rightarrow>
          if c = CHR ''e'' \<or> c = CHR ''E'' then
            (let (neg, r') = readSign r; ds = takeWhile isDigit r'
             in if ds = [] then 0
                else if neg then - int (digitsVal ds) else int (digitsVal ds))
          else 0)"

definition scale10 :: "rat \<Rightarrow> int \<Rightarrow> rat" where
  "scale10 x e = (if 0 \<le> e then x * 10 ^ nat e else x / 10 ^ nat (- e))"

definition parseFloat :: "string \<Rightarrow> jsval" where
  "parseFloat s =
     (let (neg, s2) = readSign (dropWhile isSpace s);
          ip = takeWhile isDigit s2;
          (fp, s4) = readFraction (dropWhile isDigit s2)
      in if ip = [] \<and> fp = [] then NaN
         else (let m = of_nat (digitsVal ip) + of_nat (digitsVal fp) / 10 ^ length fp;
                   v = scale10 m (readExponent s4)
               in Num (toDouble (if neg then - v else v))))"

text \<open>
  Array read \<open>a[i]\<close>: \<open>undefined\<close> past the end.
\<close>

definition at_index :: "jsval list \<Rightarrow> nat \<Rightarrow> jsval" where
  "at_index a i = (if i < length a then a ! i else Undefined)"

text \<open>
  \<open>Math.round\<close> rounds to the nearest integer and a tie to the larger one (towards
  \<open>+\<infinity>\<close>).
\<close>

definition Math_round :: "rat \<Rightarrow> rat" where
  "Math_round x = of_int \<lfloor>x + 1 / 2\<rfloor>"

text \<open>
  lodash \<open>_.range(start, end, step)\<close> with a numeric step, as in lodash 3 and 4. \<open>start\<close>
  and \<open>end\<close> are coerced by \<open>+x || 0\<close> (\<open>NaN\<close> and \<open>undefined\<close> become 0); when \<open>end\<close> is
  \<open>undefined\<close> the call is \<open>range(0, start, step)\<close>. The length is
  \<open>max(ceil((end - start) / (step || 1)), 0)\<close> and the elements are produced by repeated
  \<open>start += step\<close>, the difference, the quotient and each sum rounded as doubles. Arrays
  are unbounded lists.
\<close>

definition toNumberOr0 :: "jsval \<Rightarrow> rat" where
  "toNumberOr0 v = (case v of Num x \<Rightarrow> x | _ \<Rightarrow> 0)"

fun range_loop :: "nat \<Rightarrow> rat \<Rightarrow> rat \<Rightarrow> rat list" where
  "range_loop 0 start step = []"
| "range_loop (Suc n) start step = start # range_loop n (fadd start step) step"

definition range_length :: "rat \<Rightarrow> rat \<Rightarrow> rat \<Rightarrow> nat" where
  "range_length start end step =
     nat (max \<lceil>fdiv (fsub end start) (if step = 0 then 1 else step)\<rceil> 0)"

definition range_bounds :: "jsval \<Rightarrow> jsval \<Rightarrow> rat \<times> rat" where
  "range_bounds start end =
     (let start0 = toNumberOr0 start
      in if end = Undefined then (0, start0) else (start0, toNumberOr0 end))"

definition lodash_range :: "jsval \<Rightarrow> jsval \<Rightarrow> rat \<Rightarrow> rat list" where
  "lodash_range start end step =
     (let (start1, end1) = range_bounds start end
      in range_loop (range_length start1 end1 step) start1 step)"

text \<open>
  geolib \<open>isPointInside(latlng, coords)\<close>: the even-odd ray casting loop
  \<open>for (c = false, i = -1, l = coords.length, j = l - 1; ++i < l; j = i)\<close>, which flips \<open>c\<close>
  whenever the edge from \<open>coords[j]\<close> to \<open>coords[i]\<close> straddles the point's longitude and
  the point's latitude is below the edge there. The division is evaluated only when the
  two longitudes differ.
\<close>

definition edgeCrossed :: "geopoint \<Rightarrow> geopoint \<Rightarrow> geopoint \<Rightarrow> bool" where
  "edgeCrossed p ci cj =
     (((longitude ci \<le> longitude p \<and> longitude p < longitude cj) \<or>
       (longitude cj \<le> longitude p \<and> longitude p < longitude ci)) \<and>
      latitude p < (latitude cj - latitude ci) * (longitude p - longitude ci) /
                     (longitude cj - longitude ci) + latitude ci)"

fun isPointInside_loop :: "geopoint \<Rightarrow> geopoint list \<Rightarrow> nat list \<Rightarrow> nat \<Rightarrow> bool \<Rightarrow> bool" where
  "isPointInside_loop p coords [] j c = c"
| "isPointInside_loop p coords (i # is) j c =
     isPointInside_loop p coords is i
       (if edgeCrossed p (coords ! i) (coords ! j) then \<not> c else c)"

definition isPointInside :: "geopoint \<Rightarrow> geopoint list \<Rightarrow> bool" where
  "isPointInside p coords =
     isPointInside_loop p coords [0 ..< length coords] (length coords - 1) False"

text \<open>
  moment: a time is its number of milliseconds since the epoch. A moment is valid
  within \<open>8.64e15\<close> milliseconds of the epoch, the range of a date. \<open>a.isAfter(b)\<close> is the
  strict comparison of the two numbers when both moments are valid, and false
  otherwise.
\<close>

definition momentValid :: "int \<Rightarrow> bool" where
  "momentValid t = (\<bar>t\<bar> \<le> 8640000000000000)"

definition isAfter :: "int \<Rightarrow> int \<Rightarrow> bool" where
  "isAfter a b = (momentValid a \<and> momentValid b \<and> b < a)"

text \<open>
  bluebird \<open>Promise.map(xs, f, {concurrency: n})\<close>: the promise is fulfilled with the
  results of \<open>f\<close> in the order of \<open>xs\<close> when every call is fulfilled, and rejected when a
  call is rejected. The option bounds how many calls run at a time; the library places
  each result at the index of its input, so the option has no part in the value. Which
  calls are in flight at a given moment is not represented. Of several rejections the
  model reports the first in list order.
\<close>

fun Promise_map :: "('a \<Rightarrow> error + 'b) \<Rightarrow> 'a list \<Rightarrow> nat \<Rightarrow> error + 'b list" where
  "Promise_map f [] concurrency = Inr []"
| "Promise_map f (x # xs) concurrency =
     (case f x of
        Inl e \<Rightarrow> Inl e
      | Inr y \<Rightarrow> (case Promise_map f xs concurrency of
                    Inl e \<Rightarrow> Inl e
                  | Inr ys \<Rightarrow> Inr (y # ys)))"

subsection \<open>The module\<close>

definition LAT_GRID_INCREMENT :: rat where
  "LAT_GRID_INCREMENT = toDouble (2 / 10)"

definition LNG_GRID_INCREMENT :: rat where
  "LNG_GRID_INCREMENT = toDouble (5 / 10)"

definition roundTo1Decimal :: "rat \<Rightarrow> rat" where
  "roundTo1Decimal num = fdiv (Math_round (fmul num 10)) 10"

text \<open>
  \<open>createForecastLocations\<close>: the two local arrays \<open>latitudes\<close> and \<open>longitudes\<close>, then the
  nested \<open>forEach\<close> that pushes one location per pair, latitudes outermost.
\<close>

definition latitudes :: "jsval bounds \<Rightarrow> rat \<Rightarrow> rat list" where
  "latitudes bnds latIncrement =
     map roundTo1Decimal (lodash_range (lat (swCorner bnds)) (lat (neCorner bnds)) latIncrement)"

definition longitudes :: "jsval bounds \<Rightarrow> rat \<Rightarrow> rat list" where
  "longitudes bnds lngIncrement =
     map roundTo1Decimal (lodash_range (lng (swCorner bnds)) (lng (neCorner bnds)) lngIncrement)"

definition createForecastLocations :: "jsval bounds \<Rightarrow> rat \<Rightarrow> rat \<Rightarrow> rat latlng list" where
  "createForecastLocations bnds latIncrement lngIncrement =
     concat (map (\<lambda>la. map (\<lambda>lo. \<lparr>lat = la, lng = lo\<rparr>) (longitudes bnds lngIncrement))
                 (latitudes bnds latIncrement))"

text \<open>
  \<open>getGribBounds\<close>: the external \<open>grib_get\<close> call is a parameter; it is rejected with an
  error or fulfilled with the tool's output. The argument list is the one the source
  passes. The first line is the head of
  the output split at the line feed, a list that is never empty.
\<close>

definition gribBoundsArgs :: "string \<Rightarrow> string list" where
  "gribBoundsArgs gribFile =
     [''-p'',
      ''latitudeOfFirstGridPointInDegrees,longitudeOfFirstGridPointInDegrees,latitudeOfLastGridPointInDegrees,longitudeOfLastGridPointInDegrees'',
      gribFile]"

definition boundsOfLine :: "string \<Rightarrow> jsval bounds" where
  "boundsOfLine line =
     (let coords = map parseFloat (split (CHR '' '') (trim line))
      in \<lparr>swCorner = \<lparr>lat = at_index coords 0, lng = at_index coords 1\<rparr>,
          neCorner = \<lparr>lat = at_index coords 2, lng = at_index coords 3\<rparr>\<rparr>)"

definition getGribBounds :: "(string list \<Rightarrow> error + string) \<Rightarrow> string \<Rightarrow> error + jsval bounds" where
  "getGribBounds gribGet gribFile =
     (case gribGet (gribBoundsArgs gribFile) of
        Inl e \<Rightarrow> Inl e
      | Inr output \<Rightarrow> Inr (boundsOfLine (hd (split (CHR 0x0A) output))))"

text \<open>
  \<open>getForecastsFromGrib\<close>: the per-point extraction \<open>gribParser.getForecastItemsFromGrib\<close>
  and the host's \<open>CPU_COUNT\<close> are parameters. \<open>_.extend(location, {items: forecastItems})\<close>
  gives the location its items.
\<close>

definition extend :: "rat latlng \<Rightarrow> item list \<Rightarrow> forecast" where
  "extend location forecastItems =
     \<lparr>lat = lat location, lng = lng location, items = forecastItems\<rparr>"

definition getForecastsFromGrib ::
  "nat \<Rightarrow> (string \<Rightarrow> rat \<Rightarrow> rat \<Rightarrow> error + item list) \<Rightarrow> rat latlng list \<Rightarrow> string \<Rightarrow>
   error + forecast list" where
  "getForecastsFromGrib CPU_COUNT getForecastItemsFromGrib locations gribFile =
     Promise_map
       (\<lambda>location.
          (case getForecastItemsFromGrib gribFile (lat location) (lng location) of
             Inl e \<Rightarrow> Inl e
           | Inr forecastItems \<Rightarrow> Inr (extend location forecastItems)))
       locations CPU_COUNT"

text \<open>
  The assignment \<open>cachedForecasts = forecasts\<close>: the new objects take the next free
  references, in order, and the variable holds the array of these references. The two
  \<open>console.log\<close> calls and the clock read for them are left out.
\<close>

definition publish :: "state \<Rightarrow> forecast list \<Rightarrow> state" where
  "publish s forecasts =
     \<lparr>store = (\<lambda>r. if nextRef s \<le> r \<and> r < nextRef s + length forecasts
                    then forecasts ! (r - nextRef s) else store s r),
      nextRef = nextRef s + length forecasts,
      cachedForecasts = [nextRef s ..< nextRef s + length forecasts]\<rparr>"

definition refreshFrom ::
  "nat \<Rightarrow> (string list \<Rightarrow> error + string) \<Rightarrow> (string \<Rightarrow> rat \<Rightarrow> rat \<Rightarrow> error + item list) \<Rightarrow>
   string \<Rightarrow> state \<Rightarrow> (error + unit) \<times> state" where
  "refreshFrom CPU_COUNT gribGet getForecastItemsFromGrib gribFile s =
     (case getGribBounds gribGet gribFile of
        Inl e \<Rightarrow> (Inl e, s)
      | Inr bnds \<Rightarrow>
          (let forecastLocations =
                 createForecastLocations bnds LAT_GRID_INCREMENT LNG_GRID_INCREMENT
           in case getForecastsFromGrib CPU_COUNT getForecastItemsFromGrib forecastLocations
                     gribFile of
                Inl e \<Rightarrow> (Inl e, s)
              | Inr forecasts \<Rightarrow> (Inr (), publish s forecasts)))"

text \<open>
  \<open>getForecasts\<close>. The corners of the query box are finite numbers. \<open>startTime || 0\<close>: an
  omitted start time is the epoch. \<open>_.filter\<close> reads the cache before \<open>_.map\<close> runs. The
  callback of \<open>_.map\<close> assigns the filtered items to the \<open>items\<close> field of the cached
  object and returns that same object, so the result is an array of references into the
  cache.
\<close>

definition startMoment :: "int option \<Rightarrow> int" where
  "startMoment startTime = (case startTime of None \<Rightarrow> 0 | Some t \<Rightarrow> t)"

definition corners :: "rat bounds \<Rightarrow> geopoint list" where
  "corners bnds =
     [\<lparr>latitude = lat (swCorner bnds), longitude = lng (swCorner bnds)\<rparr>,
      \<lparr>latitude = lat (neCorner bnds), longitude = lng (swCorner bnds)\<rparr>,
      \<lparr>latitude = lat (neCorner bnds), longitude = lng (neCorner bnds)\<rparr>,
      \<lparr>latitude = lat (swCorner bnds), longitude = lng (neCorner bnds)\<rparr>]"

definition inBounds :: "rat bounds \<Rightarrow> forecast \<Rightarrow> bool" where
  "inBounds bnds fc =
     isPointInside \<lparr>latitude = lat fc, longitude = lng fc\<rparr> (corners bnds)"

definition filterItems :: "int \<Rightarrow> forecast \<Rightarrow> forecast" where
  "filterItems start fc =
     fc\<lparr>items := filter (\<lambda>it. isAfter (time it) start) (items fc)\<rparr>"

fun filterByTime :: "int \<Rightarrow> ref list \<Rightarrow> (ref \<Rightarrow> forecast) \<Rightarrow> ref list \<times> (ref \<Rightarrow> forecast)" where
  "filterByTime start [] st = ([], st)"
| "filterByTime start (r # rs) st =
     (let (out, st') = filterByTime start rs (st(r := filterItems start (st r)))
      in (r # out, st'))"

definition getForecasts :: "state \<Rightarrow> rat bounds \<Rightarrow> int option \<Rightarrow> ref list \<times> state" where
  "getForecasts s bnds startTime =
     (let start = startMoment startTime;
          forecastsInBounds = filter (\<lambda>r. inBounds bnds (store s r)) (cachedForecasts s);
          (filteredByTime, st') = filterByTime start forecastsInBounds (store s)
      in (filteredByTime, s\<lparr>store := st'\<rparr>))"

text \<open>
  What a caller reads through the returned references once the call has returned.
\<close>

definition response :: "ref list \<times> state \<Rightarrow> forecast list" where
  "response q = map (store (snd q)) (fst q)"

subsection \<open>The rounding rule in the words of the specification\<close>

text \<open>
  Rounding to one decimal place with a tie going away from zero.
\<close>

definition roundHalfAwayFromZero1 :: "rat \<Rightarrow> rat" where
  "roundHalfAwayFromZero1 x = sgn x * of_int \<lfloor>\<bar>x\<bar> * 10 + 1 / 2\<rfloor> / 10"

subsection \<open>Sample data\<close>

definition item0 :: item where
  "item0 = \<lparr>time = 1000, payload = ''t0''\<rparr>"

definition item1 :: item where
  "item1 = \<lparr>time = 2000, payload = ''t1''\<rparr>"

definition item2 :: item where
  "item2 = \<lparr>time = 3000, payload = ''t2''\<rparr>"

definition sampleBox :: "rat bounds" where
  "sampleBox = \<lparr>swCorner = \<lparr>lat = 60, lng = 24\<rparr>, neCorner = \<lparr>lat = 61, lng = 25\<rparr>\<rparr>"

definition flippedBox :: "rat bounds" where
  "flippedBox = \<lparr>swCorner = \<lparr>lat = 61, lng = 24\<rparr>, neCorner = \<lparr>lat = 60, lng = 25\<rparr>\<rparr>"

text \<open>
  A cache of two points, \<open>(60.5, 24.5)\<close> at reference 0 and \<open>(62.0, 24.5)\<close> at reference 1,
  each with the three items.
\<close>

definition sampleStore :: "ref \<Rightarrow> forecast" where
  "sampleStore r =
     (if r = 0 then \<lparr>lat = 121 / 2, lng = 49 / 2, items = [item0, item1, item2]\<rparr>
      else \<lparr>lat = 62, lng = 49 / 2, items = [item0, item1, item2]\<rparr>)"

definition sampleState :: state where
  "sampleState = \<lparr>store = sampleStore, nextRef = 2, cachedForecasts = [0, 1]\<rparr>"

text \<open>
  A cache of one point whose only item is stamped one millisecond after the last valid
  moment.
\<close>

definition lateState :: state where
  "lateState =
     \<lparr>store = (\<lambda>r. \<lparr>lat = 121 / 2, lng = 49 / 2,
                     items = [\<lparr>time = 8640000000000001, payload = ''late''\<rparr>]\<rparr>),
      nextRef = 1, cachedForecasts = [0]\<rparr>"

text \<open>
  A cache of one point whose only item is stamped with the epoch itself.
\<close>

definition epochState :: state where
  "epochState =
     \<lparr>store = (\<lambda>r. \<lparr>lat = 121 / 2, lng = 49 / 2, items = [\<lparr>time = 0, payload = ''epoch''\<rparr>]\<rparr>),
      nextRef = 1, cachedForecasts = [0]\<rparr>"

text \<open>
  External calls for the samples: a metadata query that prints a fixed text, one that
  fails, and point extractions that succeed with no items or fail at one latitude.
\<close>

definition gribGetPrints :: "string \<Rightarrow> string list \<Rightarrow> error + string" where
  "gribGetPrints output args = Inr output"

definition gribGetFails :: "string list \<Rightarrow> error + string" where
  "gribGetFails args = Inl ''grib_get failed''"

definition extractNoItems :: "string \<Rightarrow> rat \<Rightarrow> rat \<Rightarrow> error + item list" where
  "extractNoItems gribFile la lo = Inr []"

definition extractFailsAt :: "rat \<Rightarrow> string \<Rightarrow> rat \<Rightarrow> rat \<Rightarrow> error + item list" where
  "extractFailsAt bad gribFile la lo = (if la = bad then Inl ''extraction failed'' else Inr [])"

text \<open>
  The box from \<open>(0, 0)\<close> to \<open>(1, 1)\<close> as \<open>getGribBounds\<close> would return it.
\<close>

definition unitBox :: "jsval bounds" where
  "unitBox = \<lparr>swCorner = \<lparr>lat = Num 0, lng = Num 0\<rparr>, neCorner = \<lparr>lat = Num 1, lng = Num 1\<rparr>\<rparr>"

text \<open>
  The box from \<open>(-0.25, 0)\<close> to \<open>(-0.125, 0.5)\<close>, whose one latitude is a tie between two
  tenths, and the box from \<open>(60, 0)\<close> to \<open>(60.6, 0.5)\<close>.
\<close>

definition tieBox :: "jsval bounds" where
  "tieBox = \<lparr>swCorner = \<lparr>lat = Num (- 1 / 4), lng = Num 0\<rparr>,
             neCorner = \<lparr>lat = Num (- 1 / 8), lng = Num (1 / 2)\<rparr>\<rparr>"

definition upperBox :: "jsval bounds" where
  "upperBox = \<lparr>swCorner = \<lparr>lat = Num 60, lng = Num 0\<rparr>,
               neCorner = \<lparr>lat = Num (toDouble (303 / 5)), lng = Num (1 / 2)\<rparr>\<rparr>"

section \<open>Properties of the operations\<close>

subsection \<open>Facts about the query loop\<close>

lemma filterItems_idem: "filterItems t (filterItems t fc) = filterItems t fc"
  by (simp add: filterItems_def)

lemma filterItems_fields:
  "lat (filterItems t fc) = lat fc"
  "lng (filterItems t fc) = lng fc"
  "items (filterItems t fc) = filter (\<lambda>it. isAfter (time it) t) (items fc)"
  by (simp_all add: filterItems_def)

lemma fst_filterByTime: "fst (filterByTime t rs st) = rs"
  by (induction rs arbitrary: st) (simp_all add: case_prod_unfold Let_def)

lemma snd_filterByTime:
  "snd (filterByTime t rs st) r = (if r \<in> set rs then filterItems t (st r) else st r)"
proof (induction rs arbitrary: st)
  case Nil
  show ?case by simp
next
  case (Cons a rs)
  have "snd (filterByTime t (a # rs) st) r
        = snd (filterByTime t rs (st(a := filterItems t (st a)))) r"
    by (simp add: case_prod_unfold Let_def)
  also have "\<dots> = (if r \<in> set rs then filterItems t ((st(a := filterItems t (st a))) r)
                   else (st(a := filterItems t (st a))) r)"
    by (rule Cons.IH)
  also have "\<dots> = (if r \<in> set (a # rs) then filterItems t (st r) else st r)"
    by (simp add: filterItems_idem)
  finally show ?case .
qed

lemma getForecasts_fst:
  "fst (getForecasts s b t) = filter (\<lambda>r. inBounds b (store s r)) (cachedForecasts s)"
  using fst_filterByTime [of "startMoment t" "filter (\<lambda>r. inBounds b (store s r)) (cachedForecasts s)" "store s"]
  by (simp add: getForecasts_def Let_def case_prod_unfold)

lemma getForecasts_store:
  "store (snd (getForecasts s b t)) r =
     (if r \<in> set (cachedForecasts s) \<and> inBounds b (store s r)
      then filterItems (startMoment t) (store s r) else store s r)"
  using snd_filterByTime [of "startMoment t" "filter (\<lambda>r. inBounds b (store s r)) (cachedForecasts s)" "store s" r]
  by (simp add: getForecasts_def Let_def case_prod_unfold)

lemma getForecasts_frame:
  "cachedForecasts (snd (getForecasts s b t)) = cachedForecasts s"
  "nextRef (snd (getForecasts s b t)) = nextRef s"
  by (simp_all add: getForecasts_def Let_def case_prod_unfold)

lemma getForecasts_snd:
  "snd (getForecasts s b t) =
     s\<lparr>store := (\<lambda>r. if r \<in> set (cachedForecasts s) \<and> inBounds b (store s r)
                      then filterItems (startMoment t) (store s r) else store s r)\<rparr>"
proof -
  have "store (snd (getForecasts s b t)) =
          (\<lambda>r. if r \<in> set (cachedForecasts s) \<and> inBounds b (store s r)
                then filterItems (startMoment t) (store s r) else store s r)"
    by (rule ext) (rule getForecasts_store)
  moreover have "snd (getForecasts s b t) = s\<lparr>store := store (snd (getForecasts s b t))\<rparr>"
    by (simp add: getForecasts_def Let_def case_prod_unfold)
  ultimately show ?thesis by simp
qed

subsection \<open>Facts about the containment test\<close>

lemma isPointInside_four:
  "isPointInside p [a, b, c, d] =
     ((edgeCrossed p a d \<noteq> edgeCrossed p b a) \<noteq> (edgeCrossed p c b \<noteq> edgeCrossed p d c))"
  by (auto simp add: isPointInside_def upt_rec)

lemma isPointInside_corners:
  "isPointInside p (corners b) =
     (min (lng (swCorner b)) (lng (neCorner b)) \<le> longitude p \<and>
      longitude p < max (lng (swCorner b)) (lng (neCorner b)) \<and>
      min (lat (swCorner b)) (lat (neCorner b)) \<le> latitude p \<and>
      latitude p < max (lat (swCorner b)) (lat (neCorner b)))"
  unfolding corners_def isPointInside_four
  by (auto simp add: edgeCrossed_def min_def max_def)

lemma inBounds_rectangle:
  "inBounds b fc =
     (min (lng (swCorner b)) (lng (neCorner b)) \<le> lng fc \<and>
      lng fc < max (lng (swCorner b)) (lng (neCorner b)) \<and>
      min (lat (swCorner b)) (lat (neCorner b)) \<le> lat fc \<and>
      lat fc < max (lat (swCorner b)) (lat (neCorner b)))"
  by (simp add: inBounds_def isPointInside_corners)

lemma sample_inBounds:
  "inBounds sampleBox (sampleStore 0)" "\<not> inBounds sampleBox (sampleStore (Suc 0))"
  "inBounds flippedBox (sampleStore 0)" "\<not> inBounds flippedBox (sampleStore (Suc 0))"
  by (simp_all add: inBounds_rectangle sampleBox_def flippedBox_def sampleStore_def)

subsection \<open>Facts about the time filter\<close>

lemma getForecasts_items:
  "r \<in> set (fst (getForecasts s b t)) \<Longrightarrow>
   items (store (snd (getForecasts s b t)) r)
     = filter (\<lambda>it. isAfter (time it) (startMoment t)) (items (store s r))"
  by (simp add: getForecasts_fst getForecasts_store filterItems_fields)

lemma filter_all_after:
  "\<forall>it \<in> set xs. isAfter (time it) t \<Longrightarrow> filter (\<lambda>it. isAfter (time it) t) xs = xs"
  by (induction xs) simp_all

subsection \<open>Facts about the strings\<close>

lemma split_not_empty: "split sep s \<noteq> []"
  by (induction s) (auto split: list.splits)

subsection \<open>Facts about the fan-out\<close>

lemma Promise_map_Inr:
  "Promise_map f xs n = Inr ys \<Longrightarrow>
   length ys = length xs \<and> (\<forall>i < length xs. f (xs ! i) = Inr (ys ! i))"
proof (induction xs arbitrary: ys)
  case Nil
  then show ?case by simp
next
  case (Cons x xs)
  then show ?case
    by (auto split: sum.splits simp: nth_Cons split: nat.splits)
qed

lemma Promise_map_total:
  "(\<And>x. x \<in> set xs \<Longrightarrow> \<exists>y. f x = Inr y) \<Longrightarrow> \<exists>ys. Promise_map f xs n = Inr ys"
  by (induction xs) (fastforce split: sum.splits)+

lemma Promise_map_Inl:
  "x \<in> set xs \<Longrightarrow> f x = Inl e \<Longrightarrow> \<exists>e'. Promise_map f xs n = Inl e'"
  by (induction xs) (auto split: sum.splits)

lemma getForecastsFromGrib_Inr:
  assumes "getForecastsFromGrib n ext locations gribFile = Inr out"
  shows "length out = length locations \<and>
         (\<forall>i < length locations.
            lat (out ! i) = lat (locations ! i) \<and> lng (out ! i) = lng (locations ! i) \<and>
            ext gribFile (lat (locations ! i)) (lng (locations ! i)) = Inr (items (out ! i)))"
proof -
  let ?f = "\<lambda>location. (case ext gribFile (lat location) (lng location) of
             Inl e \<Rightarrow> Inl e
           | Inr forecastItems \<Rightarrow> Inr (extend location forecastItems))"
  from assms have pm: "Promise_map ?f locations n = Inr out"
    by (simp add: getForecastsFromGrib_def)
  from Promise_map_Inr [OF pm]
  have len: "length out = length locations"
    and each: "\<And>i. i < length locations \<Longrightarrow> ?f (locations ! i) = Inr (out ! i)"
    by simp_all
  have "lat (out ! i) = lat (locations ! i) \<and> lng (out ! i) = lng (locations ! i) \<and>
        ext gribFile (lat (locations ! i)) (lng (locations ! i)) = Inr (items (out ! i))"
    if "i < length locations" for i
  proof -
    from each [OF that] obtain its
      where "ext gribFile (lat (locations ! i)) (lng (locations ! i)) = Inr its"
        and "out ! i = extend (locations ! i) its"
      by (cases "ext gribFile (lat (locations ! i)) (lng (locations ! i))") auto
    then show ?thesis by (simp add: extend_def)
  qed
  with len show ?thesis by simp
qed

lemma getForecastsFromGrib_total:
  assumes "\<forall>loc \<in> set locations. \<exists>its. ext gribFile (lat loc) (lng loc) = Inr its"
  shows "\<exists>out. getForecastsFromGrib n ext locations gribFile = Inr out"
  unfolding getForecastsFromGrib_def
  by (rule Promise_map_total) (use assms in \<open>auto split: sum.splits\<close>)

lemma getForecastsFromGrib_Inl:
  assumes "loc \<in> set locations" and "ext gribFile (lat loc) (lng loc) = Inl e"
  shows "\<exists>e'. getForecastsFromGrib n ext locations gribFile = Inl e'"
  unfolding getForecastsFromGrib_def
  by (rule Promise_map_Inl [OF assms(1), where e = e]) (simp add: assms(2))

subsection \<open>Facts about the refresh\<close>

lemma refreshFrom_gribGet_fails:
  "gribGet (gribBoundsArgs gribFile) = Inl e \<Longrightarrow> refreshFrom n gribGet ext gribFile s = (Inl e, s)"
  by (simp add: refreshFrom_def getGribBounds_def)

lemma refreshFrom_extraction_fails:
  assumes "gribGet (gribBoundsArgs gribFile) = Inr printed"
    and "loc \<in> set (createForecastLocations (boundsOfLine (hd (split (CHR 0x0A) printed)))
                      LAT_GRID_INCREMENT LNG_GRID_INCREMENT)"
    and "ext gribFile (lat loc) (lng loc) = Inl e"
  shows "\<exists>e'. refreshFrom n gribGet ext gribFile s = (Inl e', s)"
proof -
  from getForecastsFromGrib_Inl [of loc _ ext gribFile e n] assms(2,3)
  obtain e' where "getForecastsFromGrib n ext
      (createForecastLocations (boundsOfLine (hd (split (CHR 0x0A) printed)))
         LAT_GRID_INCREMENT LNG_GRID_INCREMENT) gribFile = Inl e'"
    by blast
  with assms(1) have "refreshFrom n gribGet ext gribFile s = (Inl e', s)"
    by (simp add: refreshFrom_def getGribBounds_def)
  then show ?thesis by blast
qed

lemma refreshFrom_cases:
  "(\<exists>e. refreshFrom n gribGet ext gribFile s = (Inl e, s)) \<or>
   (\<exists>bnds forecasts. getGribBounds gribGet gribFile = Inr bnds \<and>
      getForecastsFromGrib n ext
        (createForecastLocations bnds LAT_GRID_INCREMENT LNG_GRID_INCREMENT) gribFile = Inr forecasts \<and>
      refreshFrom n gribGet ext gribFile s = (Inr (), publish s forecasts))"
  by (auto simp add: refreshFrom_def Let_def split: sum.splits)

lemma publish_keeps_old_objects:
  "r < nextRef s \<Longrightarrow> store (publish s forecasts) r = store s r"
  by (simp add: publish_def)

subsection \<open>Facts about the grid\<close>

lemma length_concat_map_map:
  "length (concat (map (\<lambda>x. map (f x) ys) xs)) = length xs * length ys"
  by (induction xs) simp_all

lemma nth_concat_map_map:
  "i < length xs \<Longrightarrow> j < length ys \<Longrightarrow>
   concat (map (\<lambda>x. map (f x) ys) xs) ! (i * length ys + j) = f (xs ! i) (ys ! j)"
proof (induction xs arbitrary: i)
  case Nil
  then show ?case by simp
next
  case (Cons x xs)
  show ?case
  proof (cases i)
    case 0
    with Cons.prems show ?thesis by (simp add: nth_append)
  next
    case (Suc i')
    with Cons.prems have "i' < length xs" by simp
    from Cons.IH [OF this Cons.prems(2)] Suc show ?thesis
      by (simp add: nth_append add.assoc)
  qed
qed

lemma length_range_loop: "length (range_loop n s st) = n"
  by (induction n arbitrary: s) simp_all

lemma nth_range_loop:
  "k < n \<Longrightarrow> range_loop n s st ! k = ((\<lambda>x. fadd x st) ^^ k) s"
proof (induction n arbitrary: s k)
  case 0
  then show ?case by simp
next
  case (Suc n)
  show ?case
  proof (cases k)
    case 0
    then show ?thesis by simp
  next
    case (Suc k')
    with Suc.prems have "k' < n" by simp
    from Suc.IH [OF this, of "fadd s st"] Suc funpow_swap1 [of "\<lambda>x. fadd x st" k' s]
    show ?thesis by simp
  qed
qed

lemma range_length_iff:
  "(k < range_length s e st) = (of_nat k < fdiv (fsub e s) (if st = 0 then 1 else st))"
proof -
  let ?q = "fdiv (fsub e s) (if st = 0 then 1 else st)"
  have "(k < range_length s e st) = (int k < \<lceil>?q\<rceil>)"
    by (auto simp add: range_length_def)
  also have "\<dots> = (of_int (int k) < ?q)"
    by (rule less_ceiling_iff)
  finally show ?thesis by simp
qed

lemma lodash_range_elements:
  "(k < length (lodash_range a z st))
     = (of_nat k < fdiv (fsub (snd (range_bounds a z)) (fst (range_bounds a z)))
                        (if st = 0 then 1 else st)) \<and>
   (k < length (lodash_range a z st) \<longrightarrow>
      lodash_range a z st ! k = ((\<lambda>x. fadd x st) ^^ k) (fst (range_bounds a z)))"
  by (simp add: lodash_range_def Let_def case_prod_unfold length_range_loop nth_range_loop
      range_length_iff)

lemma range_bounds_numeric: "range_bounds (Num s) (Num e) = (s, e)"
  by (simp add: range_bounds_def toNumberOr0_def)

lemma roundTo1Decimal_tenth:
  "\<exists>m::int. roundTo1Decimal x = toDouble (of_int m / 10) \<and>
            of_int m - 1 / 2 \<le> fmul x 10 \<and> fmul x 10 < of_int m + 1 / 2"
proof -
  let ?y = "fmul x 10"
  let ?m = "\<lfloor>?y + 1 / 2\<rfloor>"
  have lo: "of_int ?m \<le> ?y + 1 / 2" by (rule of_int_floor_le)
  have hi: "?y + 1 / 2 < of_int ?m + 1" by linarith
  have r: "roundTo1Decimal x = toDouble (of_int ?m / 10)"
    by (simp add: roundTo1Decimal_def Math_round_def fdiv_def)
  from lo hi have "of_int ?m - 1 / 2 \<le> ?y \<and> ?y < of_int ?m + 1 / 2"
    by linarith
  with r show ?thesis by blast
qed

subsection \<open>The samples, evaluated\<close>

lemma sample_grid:
  "createForecastLocations (boundsOfLine ''0.5 0.5 1 1'')
     LAT_GRID_INCREMENT LNG_GRID_INCREMENT
   = [\<lparr>lat = 1 / 2, lng = 1 / 2\<rparr>, \<lparr>lat = toDouble (7 / 10), lng = 1 / 2\<rparr>,
      \<lparr>lat = toDouble (9 / 10), lng = 1 / 2\<rparr>]"
  by code_simp

lemma sample_grid_short:
  "createForecastLocations (boundsOfLine ''0.5 0.5 1'')
     LAT_GRID_INCREMENT LNG_GRID_INCREMENT
   = [\<lparr>lat = 1 / 2, lng = 0\<rparr>, \<lparr>lat = toDouble (7 / 10), lng = 0\<rparr>,
      \<lparr>lat = toDouble (9 / 10), lng = 0\<rparr>]"
  by code_simp

lemma sample_bounds:
  "boundsOfLine ''60 20 70''
     = \<lparr>swCorner = \<lparr>lat = Num 60, lng = Num 20\<rparr>, neCorner = \<lparr>lat = Num 70, lng = Undefined\<rparr>\<rparr>"
  "boundsOfLine ''north 20 70 30''
     = \<lparr>swCorner = \<lparr>lat = NaN, lng = Num 20\<rparr>, neCorner = \<lparr>lat = Num 70, lng = Num 30\<rparr>\<rparr>"
  by code_simp+

lemma sample_latitudes:
  "map roundTo1Decimal (lodash_range (Num 0) (Num 1) (toDouble (1 / 5)))
     = [0, toDouble (1 / 5), toDouble (2 / 5), toDouble (3 / 5), toDouble (4 / 5)]"
  by code_simp

lemma sample_longitudes: "longitudes unitBox (1 / 2) = [0, 1 / 2]"
  by code_simp

lemma sample_tie:
  "createForecastLocations tieBox (toDouble (1 / 5)) (1 / 2) = [\<lparr>lat = toDouble (- 1 / 5), lng = 0\<rparr>]"
  by code_simp

lemma sample_upper:
  "latitudes upperBox (toDouble (1 / 5))
     = [60, toDouble (301 / 5), toDouble (302 / 5), toDouble (303 / 5)]"
  by code_simp

lemma sample_doubles:
  "toDouble (- 1 / 5) \<noteq> toDouble (- 3 / 10)"
  "toDouble (303 / 5) \<noteq> toDouble (302 / 5)"
  by code_simp+

section \<open>The claims\<close>

subsection \<open>Query: order of the result\<close>

text \<open>
  Claim C10. For every state, query box and start time, the references returned by
  \<open>getForecasts\<close> are a subsequence of \<open>cachedForecasts\<close>: the returned locations stand in
  the relative order their locations have in the snapshot. Neither \<open>_.filter\<close> nor \<open>_.map\<close>
  reorders.
\<close>

theorem getForecasts_keeps_snapshot_order:
  "subseq (fst (getForecasts s b t)) (cachedForecasts s)"
  by (simp add: getForecasts_fst)

subsection \<open>Query: effect on the snapshot\<close>

text \<open>
  Claim C1 says that a query leaves the snapshot unmodified, returns new containers and
  that a repeated query gives the same result whatever was asked in between. The code
  assigns the filtered items to the cached object and returns that object. On the sample
  cache: the query for the sample box without a start time answers with all three items
  of the point \<open>(60.5, 24.5)\<close>; the query with start time 2000 returns reference 0, a member
  of \<open>cachedForecasts\<close>, and leaves the cached object with the single item after 2000; the
  first query, repeated afterwards, answers with that single item.
\<close>

theorem getForecasts_mutates_snapshot:
  "items (store sampleState 0) = [item0, item1, item2] \<and>
   response (getForecasts sampleState sampleBox None)
     = [\<lparr>lat = 121 / 2, lng = 49 / 2, items = [item0, item1, item2]\<rparr>] \<and>
   fst (getForecasts sampleState sampleBox (Some 2000)) = [0] \<and>
   set (fst (getForecasts sampleState sampleBox (Some 2000))) \<subseteq> set (cachedForecasts sampleState) \<and>
   items (store (snd (getForecasts sampleState sampleBox (Some 2000))) 0) = [item2] \<and>
   response (getForecasts (snd (getForecasts sampleState sampleBox (Some 2000))) sampleBox None)
     = [\<lparr>lat = 121 / 2, lng = 49 / 2, items = [item2]\<rparr>]"
  by (simp add: response_def getForecasts_fst getForecasts_store getForecasts_frame
      inBounds_rectangle sampleBox_def sampleState_def filterItems_def isAfter_def
      momentValid_def startMoment_def sampleStore_def item0_def item1_def item2_def)

subsection \<open>Query: the time filter\<close>

text \<open>
  Claim C5, the items that are dropped although the claim keeps them. The default start
  is the epoch and the comparison stays strict there: on a cache whose point holds one
  item stamped with the epoch, the query without a start time selects the point and
  returns it with no item. An item whose time is no valid moment is after nothing: on a
  cache whose point holds one item stamped a millisecond beyond the last valid moment,
  the query with start time 2000 returns the point with no item.
\<close>

theorem items_at_epoch_or_out_of_range_dropped:
  "items (store epochState 0) = [\<lparr>time = 0, payload = ''epoch''\<rparr>] \<and>
   fst (getForecasts epochState sampleBox None) = [0] \<and>
   items (store (snd (getForecasts epochState sampleBox None)) 0) = [] \<and>
   items (store lateState 0) = [\<lparr>time = 8640000000000001, payload = ''late''\<rparr>] \<and>
   fst (getForecasts lateState sampleBox (Some 2000)) = [0] \<and>
   items (store (snd (getForecasts lateState sampleBox (Some 2000))) 0) = []"
  by (simp add: getForecasts_fst getForecasts_store inBounds_rectangle sampleBox_def
      epochState_def lateState_def filterItems_def isAfter_def momentValid_def startMoment_def)

text \<open>
  Claim C5. For every query, the items of a returned location are the subsequence of
  the items the cached location had before the call whose time is a valid moment
  strictly greater than the start time, the start time being a valid moment too
  (a moment is valid within \<open>8.64e15\<close> milliseconds of the epoch). An omitted start time
  is the epoch, time 0; then every item stamped with a valid moment after the epoch is
  kept. For a selected location with items at times \<open>t0 < t1 < t2\<close>, \<open>t1\<close> and \<open>t2\<close> valid, the
  query with start time \<open>t1\<close> returns the item at \<open>t2\<close> only.
\<close>

theorem getForecasts_items_strictly_after:
  "(r \<in> set (fst (getForecasts s b t)) \<longrightarrow>
      items (store (snd (getForecasts s b t)) r)
        = filter (\<lambda>it. momentValid (time it) \<and> momentValid (startMoment t) \<and>
                        startMoment t < time it)
            (items (store s r))) \<and>
   startMoment None = 0 \<and> startMoment (Some t0) = t0 \<and>
   momentValid x = (\<bar>x\<bar> \<le> 8640000000000000) \<and>
   (r \<in> set (fst (getForecasts s b None)) \<and>
    (\<forall>it \<in> set (items (store s r)). 0 < time it \<and> momentValid (time it)) \<longrightarrow>
      items (store (snd (getForecasts s b None)) r) = items (store s r)) \<and>
   (r \<in> set (cachedForecasts s) \<and> inBounds b (store s r) \<and>
    items (store s r) = [i0, i1, i2] \<and> time i0 < time i1 \<and> time i1 < time i2 \<and>
    momentValid (time i1) \<and> momentValid (time i2) \<longrightarrow>
      r \<in> set (fst (getForecasts s b (Some (time i1)))) \<and>
      items (store (snd (getForecasts s b (Some (time i1)))) r) = [i2])"
proof -
  have a: "r \<in> set (fst (getForecasts s b t)) \<longrightarrow>
      items (store (snd (getForecasts s b t)) r)
        = filter (\<lambda>it. momentValid (time it) \<and> momentValid (startMoment t) \<and>
                        startMoment t < time it)
            (items (store s r))"
    using getForecasts_items [of r s b t] by (simp add: isAfter_def)
  have b: "startMoment None = 0 \<and> startMoment (Some t0) = t0"
    by (simp add: startMoment_def)
  have v: "momentValid x = (\<bar>x\<bar> \<le> 8640000000000000)"
    by (simp add: momentValid_def)
  have c: "r \<in> set (fst (getForecasts s b None)) \<and>
    (\<forall>it \<in> set (items (store s r)). 0 < time it \<and> momentValid (time it)) \<longrightarrow>
      items (store (snd (getForecasts s b None)) r) = items (store s r)"
  proof (intro impI, elim conjE)
    assume m: "r \<in> set (fst (getForecasts s b None))"
      and ok: "\<forall>it \<in> set (items (store s r)). 0 < time it \<and> momentValid (time it)"
    from ok have "\<forall>it \<in> set (items (store s r)). isAfter (time it) (startMoment None)"
      by (simp add: isAfter_def startMoment_def momentValid_def)
    from filter_all_after [OF this] getForecasts_items [OF m]
    show "items (store (snd (getForecasts s b None)) r) = items (store s r)"
      by simp
  qed
  have d: "r \<in> set (cachedForecasts s) \<and> inBounds b (store s r) \<and>
    items (store s r) = [i0, i1, i2] \<and> time i0 < time i1 \<and> time i1 < time i2 \<and>
    momentValid (time i1) \<and> momentValid (time i2) \<longrightarrow>
      r \<in> set (fst (getForecasts s b (Some (time i1)))) \<and>
      items (store (snd (getForecasts s b (Some (time i1)))) r) = [i2]"
    by (simp add: getForecasts_fst getForecasts_store filterItems_fields startMoment_def
        isAfter_def)
  from a b v c d show ?thesis by blast
qed

theorem getForecasts_items_strictly_after_witness:
  "0 \<in> set (fst (getForecasts sampleState sampleBox (Some 2000))) \<and>
   items (store (snd (getForecasts sampleState sampleBox (Some 2000))) 0) = [item2] \<and>
   0 \<in> set (fst (getForecasts sampleState sampleBox None)) \<and>
   items (store (snd (getForecasts sampleState sampleBox None)) 0) = [item0, item1, item2] \<and>
   time item0 < time item1 \<and> time item1 < time item2 \<and>
   momentValid (time item0) \<and> momentValid (time item1) \<and> momentValid (time item2) \<and>
   0 < time item0 \<and>
   0 \<in> set (cachedForecasts sampleState) \<and> inBounds sampleBox (store sampleState 0) \<and>
   items (store sampleState 0) = [item0, item1, item2]"
proof -
  have in0: "inBounds sampleBox (store sampleState 0)"
    by (simp add: inBounds_rectangle sampleBox_def sampleState_def sampleStore_def)
  have c0: "0 \<in> set (cachedForecasts sampleState)"
    by (simp add: sampleState_def)
  have it: "items (store sampleState 0) = [item0, item1, item2]"
    by (simp add: sampleState_def sampleStore_def)
  have tm: "time item0 < time item1 \<and> time item1 < time item2 \<and> time item1 = 2000 \<and>
            0 < time item0 \<and> 0 < time item1 \<and> 0 < time item2 \<and>
            momentValid (time item0) \<and> momentValid (time item1) \<and> momentValid (time item2)"
    by (simp add: item0_def item1_def item2_def momentValid_def)
  have m: "0 \<in> set (fst (getForecasts sampleState sampleBox None))"
    using in0 c0 by (simp add: getForecasts_fst)
  note th = getForecasts_items_strictly_after
    [where r = 0 and s = sampleState and b = sampleBox and t = "Some 2000"
       and ?i0.0 = item0 and ?i1.0 = item1 and ?i2.0 = item2]
  from th in0 c0 it tm have q1':
    "0 \<in> set (fst (getForecasts sampleState sampleBox (Some (time item1)))) \<and>
     items (store (snd (getForecasts sampleState sampleBox (Some (time item1)))) 0) = [item2]"
    by blast
  from tm have t1: "time item1 = 2000"
    by blast
  from q1' have q1:
    "0 \<in> set (fst (getForecasts sampleState sampleBox (Some 2000))) \<and>
     items (store (snd (getForecasts sampleState sampleBox (Some 2000))) 0) = [item2]"
    by (simp only: t1)
  have ok: "\<forall>it \<in> set (items (store sampleState 0)). 0 < time it \<and> momentValid (time it)"
    by (simp add: it item0_def item1_def item2_def momentValid_def)
  from th m ok have q2':
    "items (store (snd (getForecasts sampleState sampleBox None)) 0) = items (store sampleState 0)"
    by blast
  then have q2:
    "items (store (snd (getForecasts sampleState sampleBox None)) 0) = [item0, item1, item2]"
    by (simp only: it)
  from q1 q2 m tm c0 in0 it show ?thesis by blast
qed

subsection \<open>Query: the spatial filter\<close>

text \<open>
  Claim C6. For every well-formed query box (south-west corner not above and not east
  of the north-east corner), the references selected by the query are those of
  \<open>cachedForecasts\<close> whose point passes geolib's containment test against the polygon of
  the four corners in the order \<open>(sw.lat, sw.lng)\<close>, \<open>(ne.lat, sw.lng)\<close>, \<open>(ne.lat, ne.lng)\<close>,
  \<open>(sw.lat, ne.lng)\<close>. For this polygon the test holds exactly on the rectangle
  \<open>sw.lat \<le> lat < ne.lat\<close>, \<open>sw.lng \<le> lng < ne.lng\<close>: the south and west edges belong to it,
  the north and east edges do not. For the box \<open>sw = (60, 24)\<close>, \<open>ne = (61, 25)\<close> the point
  \<open>(60.5, 24.5)\<close> is selected and the point \<open>(62.0, 24.5)\<close> is not.
\<close>

theorem getForecasts_selects_inside_polygon:
  assumes "lat (swCorner b) \<le> lat (neCorner b)" and "lng (swCorner b) \<le> lng (neCorner b)"
  shows "fst (getForecasts s b t) =
     filter (\<lambda>r. isPointInside \<lparr>latitude = lat (store s r), longitude = lng (store s r)\<rparr>
                   [\<lparr>latitude = lat (swCorner b), longitude = lng (swCorner b)\<rparr>,
                    \<lparr>latitude = lat (neCorner b), longitude = lng (swCorner b)\<rparr>,
                    \<lparr>latitude = lat (neCorner b), longitude = lng (neCorner b)\<rparr>,
                    \<lparr>latitude = lat (swCorner b), longitude = lng (neCorner b)\<rparr>])
            (cachedForecasts s) \<and>
   (isPointInside p
      [\<lparr>latitude = lat (swCorner b), longitude = lng (swCorner b)\<rparr>,
       \<lparr>latitude = lat (neCorner b), longitude = lng (swCorner b)\<rparr>,
       \<lparr>latitude = lat (neCorner b), longitude = lng (neCorner b)\<rparr>,
       \<lparr>latitude = lat (swCorner b), longitude = lng (neCorner b)\<rparr>] =
    (lat (swCorner b) \<le> latitude p \<and> latitude p < lat (neCorner b) \<and>
     lng (swCorner b) \<le> longitude p \<and> longitude p < lng (neCorner b))) \<and>
   isPointInside \<lparr>latitude = 605 / 10, longitude = 245 / 10\<rparr> (corners sampleBox) \<and>
   \<not> isPointInside \<lparr>latitude = 62, longitude = 245 / 10\<rparr> (corners sampleBox) \<and>
   fst (getForecasts sampleState sampleBox t) = [0]"
proof -
  have sel: "fst (getForecasts s b t) =
     filter (\<lambda>r. isPointInside \<lparr>latitude = lat (store s r), longitude = lng (store s r)\<rparr> (corners b))
            (cachedForecasts s)"
    by (simp add: getForecasts_fst inBounds_def)
  have rect: "isPointInside p (corners b) =
    (lat (swCorner b) \<le> latitude p \<and> latitude p < lat (neCorner b) \<and>
     lng (swCorner b) \<le> longitude p \<and> longitude p < lng (neCorner b))"
    using assms by (auto simp add: isPointInside_corners min_def max_def)
  have ex: "isPointInside \<lparr>latitude = 605 / 10, longitude = 245 / 10\<rparr> (corners sampleBox) \<and>
   \<not> isPointInside \<lparr>latitude = 62, longitude = 245 / 10\<rparr> (corners sampleBox)"
    by (simp add: isPointInside_corners sampleBox_def)
  have ex2: "fst (getForecasts sampleState sampleBox t) = [0]"
    by (simp add: getForecasts_fst inBounds_rectangle sampleBox_def sampleState_def sampleStore_def)
  from sel rect ex ex2 show ?thesis
    by (simp only: corners_def simp_thms)
qed

theorem getForecasts_selects_inside_polygon_witness:
  "lat (swCorner sampleBox) \<le> lat (neCorner sampleBox) \<and>
   lng (swCorner sampleBox) \<le> lng (neCorner sampleBox) \<and>
   fst (getForecasts sampleState sampleBox None) = [0] \<and>
   isPointInside \<lparr>latitude = 605 / 10, longitude = 245 / 10\<rparr> (corners sampleBox)"
proof -
  have h1: "lat (swCorner sampleBox) \<le> lat (neCorner sampleBox)"
    by (simp add: sampleBox_def)
  have h2: "lng (swCorner sampleBox) \<le> lng (neCorner sampleBox)"
    by (simp add: sampleBox_def)
  from getForecasts_selects_inside_polygon [OF h1 h2, of sampleState None] h1 h2
  show ?thesis by blast
qed

subsection \<open>Query: a box with the latitudes exchanged\<close>

text \<open>
  Claim C8, the empty result. The box \<open>sw = (61, 24)\<close>, \<open>ne = (60, 25)\<close> has its south-west
  latitude above its north-east latitude, and the query for it on the sample cache
  returns the point \<open>(60.5, 24.5)\<close>.
\<close>

theorem flipped_box_query_not_empty:
  "lat (neCorner flippedBox) < lat (swCorner flippedBox) \<and>
   fst (getForecasts sampleState flippedBox None) = [0] \<and>
   fst (getForecasts sampleState flippedBox None) \<noteq> []"
  by (simp add: getForecasts_fst inBounds_rectangle flippedBox_def sampleState_def sampleStore_def)

text \<open>
  Claim C8. \<open>getForecasts\<close> has no check of the box. For every query box with
  \<open>swCorner.lat > neCorner.lat\<close> the query returns normally, and its result and its effect
  are those of the query for the box with the two latitudes exchanged: it selects the
  cached points with \<open>neCorner.lat \<le> lat < swCorner.lat\<close> and a longitude between the two
  corner longitudes.
\<close>

theorem getForecasts_flipped_box:
  assumes "lat (neCorner b) < lat (swCorner b)"
  shows "getForecasts s b t =
           getForecasts s \<lparr>swCorner = \<lparr>lat = lat (neCorner b), lng = lng (swCorner b)\<rparr>,
                           neCorner = \<lparr>lat = lat (swCorner b), lng = lng (neCorner b)\<rparr>\<rparr> t \<and>
         fst (getForecasts s b t) =
           filter (\<lambda>r. lat (neCorner b) \<le> lat (store s r) \<and> lat (store s r) < lat (swCorner b) \<and>
                       min (lng (swCorner b)) (lng (neCorner b)) \<le> lng (store s r) \<and>
                       lng (store s r) < max (lng (swCorner b)) (lng (neCorner b)))
                  (cachedForecasts s)"
proof -
  let ?b' = "\<lparr>swCorner = \<lparr>lat = lat (neCorner b), lng = lng (swCorner b)\<rparr>,
              neCorner = \<lparr>lat = lat (swCorner b), lng = lng (neCorner b)\<rparr>\<rparr>"
  have same: "inBounds b = inBounds ?b'"
    by (rule ext) (auto simp add: inBounds_rectangle min_def max_def)
  have eq: "getForecasts s b t = getForecasts s ?b' t"
    by (simp add: getForecasts_def same)
  have sel: "fst (getForecasts s b t) =
           filter (\<lambda>r. lat (neCorner b) \<le> lat (store s r) \<and> lat (store s r) < lat (swCorner b) \<and>
                       min (lng (swCorner b)) (lng (neCorner b)) \<le> lng (store s r) \<and>
                       lng (store s r) < max (lng (swCorner b)) (lng (neCorner b)))
                  (cachedForecasts s)"
    unfolding getForecasts_fst
    by (rule filter_cong) (use assms in \<open>auto simp add: inBounds_rectangle min_def max_def\<close>)
  from eq sel show ?thesis by (rule conjI)
qed

theorem getForecasts_flipped_box_witness:
  "lat (neCorner flippedBox) < lat (swCorner flippedBox) \<and>
   getForecasts sampleState flippedBox None = getForecasts sampleState sampleBox None \<and>
   fst (getForecasts sampleState flippedBox None) = [0]"
proof -
  have h: "lat (neCorner flippedBox) < lat (swCorner flippedBox)"
    by (simp add: flippedBox_def)
  have sw: "\<lparr>swCorner = \<lparr>lat = lat (neCorner flippedBox), lng = lng (swCorner flippedBox)\<rparr>,
             neCorner = \<lparr>lat = lat (swCorner flippedBox), lng = lng (neCorner flippedBox)\<rparr>\<rparr> = sampleBox"
    by (simp add: flippedBox_def sampleBox_def)
  note th = getForecasts_flipped_box [OF h, of sampleState None]
  have e1: "getForecasts sampleState flippedBox None = getForecasts sampleState sampleBox None"
    using th [THEN conjunct1] by (simp only: sw)
  have e2: "fst (getForecasts sampleState flippedBox None) = [0]"
    using th [THEN conjunct2] by (simp add: flippedBox_def sampleState_def sampleStore_def)
  from h e1 e2 show ?thesis by simp
qed

subsection \<open>Extraction: output follows input\<close>

text \<open>
  Claim C7. For every list of input locations, every grid file and every concurrency
  bound \<open>n\<close>: when \<open>getForecastsFromGrib\<close> is fulfilled, its output has the length of the
  input, and output element \<open>i\<close> carries the \<open>lat\<close> and \<open>lng\<close> of input location \<open>i\<close> and, as its
  items, the result of the extraction call for the grid file and that \<open>lat\<close> and \<open>lng\<close>; and it
  is fulfilled whenever every extraction call is.
\<close>

theorem getForecastsFromGrib_output_follows_input:
  "(getForecastsFromGrib n ext locations gribFile = Inr out \<longrightarrow>
      length out = length locations \<and>
      (\<forall>i < length locations.
         lat (out ! i) = lat (locations ! i) \<and> lng (out ! i) = lng (locations ! i) \<and>
         ext gribFile (lat (locations ! i)) (lng (locations ! i)) = Inr (items (out ! i)))) \<and>
   ((\<forall>loc \<in> set locations. \<exists>its. ext gribFile (lat loc) (lng loc) = Inr its) \<longrightarrow>
      (\<exists>res. getForecastsFromGrib n ext locations gribFile = Inr res))"
  using getForecastsFromGrib_Inr [of n ext locations gribFile out]
    getForecastsFromGrib_total [of locations ext gribFile n]
  by blast

theorem getForecastsFromGrib_output_follows_input_witness:
  "extractNoItems ''f.grb'' (1 / 2) 0 = Inr [] \<and>
   extractNoItems ''f.grb'' (7 / 10) 0 = Inr [] \<and>
   (\<exists>res. getForecastsFromGrib 4 extractNoItems
             [\<lparr>lat = 1 / 2, lng = 0\<rparr>, \<lparr>lat = 7 / 10, lng = 0\<rparr>] ''f.grb'' = Inr res) \<and>
   getForecastsFromGrib 4 extractNoItems [\<lparr>lat = 1 / 2, lng = 0\<rparr>, \<lparr>lat = 7 / 10, lng = 0\<rparr>] ''f.grb''
     = Inr [\<lparr>lat = 1 / 2, lng = 0, items = []\<rparr>, \<lparr>lat = 7 / 10, lng = 0, items = []\<rparr>] \<and>
   length [\<lparr>lat = 1 / 2, lng = 0, items = []\<rparr>, \<lparr>lat = 7 / 10, lng = 0, items = []\<rparr> :: forecast]
     = length [\<lparr>lat = 1 / 2, lng = 0\<rparr>, \<lparr>lat = 7 / 10, lng = (0::rat)\<rparr>]"
proof -
  have x: "extractNoItems ''f.grb'' (1 / 2) 0 = Inr [] \<and> extractNoItems ''f.grb'' (7 / 10) 0 = Inr []"
    by (simp add: extractNoItems_def)
  then have ok: "\<forall>loc \<in> set [\<lparr>lat = 1 / 2, lng = 0\<rparr>, \<lparr>lat = 7 / 10, lng = (0::rat)\<rparr>].
      \<exists>its. extractNoItems ''f.grb'' (lat loc) (lng loc) = Inr its"
    by simp
  have run: "getForecastsFromGrib 4 extractNoItems [\<lparr>lat = 1 / 2, lng = 0\<rparr>, \<lparr>lat = 7 / 10, lng = 0\<rparr>] ''f.grb''
     = Inr [\<lparr>lat = 1 / 2, lng = 0, items = []\<rparr>, \<lparr>lat = 7 / 10, lng = 0, items = []\<rparr>]"
    by (simp add: getForecastsFromGrib_def extractNoItems_def extend_def)
  note th = getForecastsFromGrib_output_follows_input
    [of 4 extractNoItems "[\<lparr>lat = 1 / 2, lng = 0\<rparr>, \<lparr>lat = 7 / 10, lng = 0\<rparr>]" "''f.grb''"
        "[\<lparr>lat = 1 / 2, lng = 0, items = []\<rparr>, \<lparr>lat = 7 / 10, lng = 0, items = []\<rparr>]"]
  from th ok have ex: "\<exists>res. getForecastsFromGrib 4 extractNoItems
             [\<lparr>lat = 1 / 2, lng = 0\<rparr>, \<lparr>lat = 7 / 10, lng = 0\<rparr>] ''f.grb'' = Inr res"
    by blast
  from th run have len:
    "length [\<lparr>lat = 1 / 2, lng = 0, items = []\<rparr>, \<lparr>lat = 7 / 10, lng = 0, items = []\<rparr> :: forecast]
     = length [\<lparr>lat = 1 / 2, lng = 0\<rparr>, \<lparr>lat = 7 / 10, lng = (0::rat)\<rparr>]"
    by blast
  from x ex run len show ?thesis by blast
qed

subsection \<open>Refresh: all or nothing\<close>

text \<open>
  Claim C2. If the metadata query fails, or it succeeds and the extraction fails for one
  of the generated locations, then \<open>refreshFrom\<close> fails and the state, with the variable
  \<open>cachedForecasts\<close> and every cached object, is what it was before. A failed refresh never
  changes the state; a state changed by a refresh is the old state with the complete
  list of extracted forecasts published by the one assignment, after bounds, grid and
  every extraction have succeeded.
\<close>

theorem refreshFrom_all_or_nothing:
  "(gribGet (gribBoundsArgs gribFile) = Inl e \<longrightarrow>
      refreshFrom n gribGet ext gribFile s = (Inl e, s)) \<and>
   (gribGet (gribBoundsArgs gribFile) = Inr printed \<and>
    loc \<in> set (createForecastLocations (boundsOfLine (hd (split (CHR 0x0A) printed)))
                 LAT_GRID_INCREMENT LNG_GRID_INCREMENT) \<and>
    ext gribFile (lat loc) (lng loc) = Inl e \<longrightarrow>
      (\<exists>e'. refreshFrom n gribGet ext gribFile s = (Inl e', s))) \<and>
   (fst (refreshFrom n gribGet ext gribFile s) = Inl e \<longrightarrow>
      snd (refreshFrom n gribGet ext gribFile s) = s) \<and>
   (snd (refreshFrom n gribGet ext gribFile s) \<noteq> s \<longrightarrow>
      (\<exists>bnds forecasts. getGribBounds gribGet gribFile = Inr bnds \<and>
         getForecastsFromGrib n ext
           (createForecastLocations bnds LAT_GRID_INCREMENT LNG_GRID_INCREMENT) gribFile
           = Inr forecasts \<and>
         refreshFrom n gribGet ext gribFile s = (Inr (), publish s forecasts)))"
proof -
  have a: "gribGet (gribBoundsArgs gribFile) = Inl e \<longrightarrow>
      refreshFrom n gribGet ext gribFile s = (Inl e, s)"
    by (simp add: refreshFrom_gribGet_fails)
  have b: "gribGet (gribBoundsArgs gribFile) = Inr printed \<and>
    loc \<in> set (createForecastLocations (boundsOfLine (hd (split (CHR 0x0A) printed)))
                 LAT_GRID_INCREMENT LNG_GRID_INCREMENT) \<and>
    ext gribFile (lat loc) (lng loc) = Inl e \<longrightarrow>
      (\<exists>e'. refreshFrom n gribGet ext gribFile s = (Inl e', s))"
    using refreshFrom_extraction_fails [of gribGet gribFile printed loc ext e n s] by blast
  have c: "fst (refreshFrom n gribGet ext gribFile s) = Inl e \<longrightarrow>
      snd (refreshFrom n gribGet ext gribFile s) = s"
    using refreshFrom_cases [of n gribGet ext gribFile s] by auto
  have d: "snd (refreshFrom n gribGet ext gribFile s) \<noteq> s \<longrightarrow>
      (\<exists>bnds forecasts. getGribBounds gribGet gribFile = Inr bnds \<and>
         getForecastsFromGrib n ext
           (createForecastLocations bnds LAT_GRID_INCREMENT LNG_GRID_INCREMENT) gribFile
           = Inr forecasts \<and>
         refreshFrom n gribGet ext gribFile s = (Inr (), publish s forecasts))"
    using refreshFrom_cases [of n gribGet ext gribFile s] by auto
  from a b c d show ?thesis by blast
qed

theorem refreshFrom_all_or_nothing_witness:
  "refreshFrom 4 gribGetFails extractNoItems ''f.grb'' sampleState
     = (Inl ''grib_get failed'', sampleState) \<and>
   gribGetPrints ''0.5 0.5 1 1'' (gribBoundsArgs ''f.grb'') = Inr ''0.5 0.5 1 1'' \<and>
   \<lparr>lat = toDouble (7 / 10), lng = 1 / 2\<rparr>
     \<in> set (createForecastLocations (boundsOfLine (hd (split (CHR 0x0A) ''0.5 0.5 1 1'')))
              LAT_GRID_INCREMENT LNG_GRID_INCREMENT) \<and>
   extractFailsAt (toDouble (7 / 10)) ''f.grb'' (toDouble (7 / 10)) (1 / 2) = Inl ''extraction failed'' \<and>
   (\<exists>e'. refreshFrom 4 (gribGetPrints ''0.5 0.5 1 1'') (extractFailsAt (toDouble (7 / 10))) ''f.grb'' sampleState
           = (Inl e', sampleState))"
proof -
  have f1: "gribGetFails (gribBoundsArgs ''f.grb'') = Inl ''grib_get failed''"
    by (simp add: gribGetFails_def)
  have g1: "gribGetPrints ''0.5 0.5 1 1'' (gribBoundsArgs ''f.grb'') = Inr ''0.5 0.5 1 1''"
    by (simp add: gribGetPrints_def)
  have m1: "\<lparr>lat = toDouble (7 / 10), lng = 1 / 2\<rparr>
     \<in> set (createForecastLocations (boundsOfLine (hd (split (CHR 0x0A) ''0.5 0.5 1 1'')))
              LAT_GRID_INCREMENT LNG_GRID_INCREMENT)"
    by (simp add: sample_grid)
  have x1: "extractFailsAt (toDouble (7 / 10)) ''f.grb'' (lat \<lparr>lat = toDouble (7 / 10), lng = 1 / 2\<rparr>)
              (lng \<lparr>lat = toDouble (7 / 10), lng = 1 / (2::rat)\<rparr>) = Inl ''extraction failed''"
    by (simp add: extractFailsAt_def)
  from refreshFrom_all_or_nothing
    [of gribGetFails "''f.grb''" "''grib_get failed''" 4 extractNoItems sampleState] f1
  have r1: "refreshFrom 4 gribGetFails extractNoItems ''f.grb'' sampleState
     = (Inl ''grib_get failed'', sampleState)"
    by blast
  from refreshFrom_all_or_nothing
    [of "gribGetPrints ''0.5 0.5 1 1''" "''f.grb''" "''extraction failed''" 4
        "extractFailsAt (toDouble (7 / 10))" sampleState "''0.5 0.5 1 1''" "\<lparr>lat = toDouble (7 / 10), lng = 1 / 2\<rparr>"]
    g1 m1 x1
  have r2: "\<exists>e'. refreshFrom 4 (gribGetPrints ''0.5 0.5 1 1'') (extractFailsAt (toDouble (7 / 10))) ''f.grb'' sampleState
           = (Inl e', sampleState)"
    by blast
  from r1 g1 m1 x1 r2 show ?thesis by simp
qed

subsection \<open>Bounds: malformed output of the metadata query\<close>

text \<open>
  Claim C3, the error. \<open>getGribBounds\<close> has no check of the tokens. For the output
  \<open>60 20 70\<close> it is fulfilled with a box whose fourth coordinate is \<open>undefined\<close>; for the
  output \<open>north 20 70 30\<close> with a box whose first coordinate is \<open>NaN\<close>. A refresh on the
  three-token output \<open>0.5 0.5 1\<close> succeeds and replaces the two cached points by three new
  ones (\<open>_.range\<close> reads the missing end as \<open>range(0, 0.5)\<close>).
\<close>

theorem getGribBounds_accepts_short_output:
  "getGribBounds (gribGetPrints ''60 20 70'') ''f.grb''
     = Inr \<lparr>swCorner = \<lparr>lat = Num 60, lng = Num 20\<rparr>,
            neCorner = \<lparr>lat = Num 70, lng = Undefined\<rparr>\<rparr> \<and>
   getGribBounds (gribGetPrints ''north 20 70 30'') ''f.grb''
     = Inr \<lparr>swCorner = \<lparr>lat = NaN, lng = Num 20\<rparr>,
            neCorner = \<lparr>lat = Num 70, lng = Num 30\<rparr>\<rparr> \<and>
   cachedForecasts sampleState = [0, 1] \<and>
   fst (refreshFrom 4 (gribGetPrints ''0.5 0.5 1'') extractNoItems ''f.grb'' sampleState) = Inr () \<and>
   cachedForecasts (snd (refreshFrom 4 (gribGetPrints ''0.5 0.5 1'') extractNoItems ''f.grb'' sampleState))
     = [2, 3, 4]"
proof -
  have a: "getGribBounds (gribGetPrints ''60 20 70'') ''f.grb''
     = Inr \<lparr>swCorner = \<lparr>lat = Num 60, lng = Num 20\<rparr>,
            neCorner = \<lparr>lat = Num 70, lng = Undefined\<rparr>\<rparr>"
    by (simp add: getGribBounds_def gribGetPrints_def sample_bounds)
  have b: "getGribBounds (gribGetPrints ''north 20 70 30'') ''f.grb''
     = Inr \<lparr>swCorner = \<lparr>lat = NaN, lng = Num 20\<rparr>,
            neCorner = \<lparr>lat = Num 70, lng = Num 30\<rparr>\<rparr>"
    by (simp add: getGribBounds_def gribGetPrints_def sample_bounds)
  have c: "cachedForecasts sampleState = [0, 1]"
    by (simp add: sampleState_def)
  have r: "refreshFrom 4 (gribGetPrints ''0.5 0.5 1'') extractNoItems ''f.grb'' sampleState
     = (Inr (), publish sampleState
         [\<lparr>lat = 1 / 2, lng = 0, items = []\<rparr>, \<lparr>lat = toDouble (7 / 10), lng = 0, items = []\<rparr>,
          \<lparr>lat = toDouble (9 / 10), lng = 0, items = []\<rparr>])"
    by (simp add: refreshFrom_def getGribBounds_def gribGetPrints_def sample_grid_short
        getForecastsFromGrib_def extractNoItems_def extend_def)
  have d: "cachedForecasts (publish sampleState
         [\<lparr>lat = 1 / 2, lng = 0, items = []\<rparr>, \<lparr>lat = toDouble (7 / 10), lng = 0, items = []\<rparr>,
          \<lparr>lat = toDouble (9 / 10), lng = 0, items = []\<rparr>]) = [2, 3, 4]"
    by (simp add: publish_def sampleState_def upt_rec)
  from a b c r d show ?thesis by simp
qed

text \<open>
  Claim C3. \<open>getGribBounds\<close> fails exactly when the metadata query itself fails, with that
  error, and then \<open>refreshFrom\<close> fails with it and leaves the state unchanged. When the
  query succeeds, \<open>getGribBounds\<close> is fulfilled whatever the output is: coordinate \<open>k\<close> of the
  box is \<open>parseFloat\<close> of token \<open>k\<close> of the trimmed first line split at single spaces, which
  is \<open>NaN\<close> for a token that is no number, and \<open>undefined\<close> when the line has no token \<open>k\<close>.
\<close>

theorem getGribBounds_fails_only_with_gribGet:
  "(gribGet (gribBoundsArgs gribFile) = Inr printed \<longrightarrow>
      (\<exists>bnds. getGribBounds gribGet gribFile = Inr bnds \<and>
         lat (swCorner bnds) = at_index (map parseFloat (split (CHR '' '') (trim (hd (split (CHR 0x0A) printed))))) 0 \<and>
         lng (swCorner bnds) = at_index (map parseFloat (split (CHR '' '') (trim (hd (split (CHR 0x0A) printed))))) 1 \<and>
         lat (neCorner bnds) = at_index (map parseFloat (split (CHR '' '') (trim (hd (split (CHR 0x0A) printed))))) 2 \<and>
         lng (neCorner bnds) = at_index (map parseFloat (split (CHR '' '') (trim (hd (split (CHR 0x0A) printed))))) 3)) \<and>
   (at_index toks k = (if k < length toks then toks ! k else Undefined)) \<and>
   (gribGet (gribBoundsArgs gribFile) = Inl e \<longrightarrow>
      getGribBounds gribGet gribFile = Inl e \<and>
      refreshFrom n gribGet ext gribFile s = (Inl e, s))"
  by (simp add: getGribBounds_def boundsOfLine_def Let_def at_index_def refreshFrom_def)

theorem getGribBounds_fails_only_with_gribGet_witness:
  "gribGetPrints ''60 20 70'' (gribBoundsArgs ''f.grb'') = Inr ''60 20 70'' \<and>
   (\<exists>bnds. getGribBounds (gribGetPrints ''60 20 70'') ''f.grb'' = Inr bnds \<and>
      lat (swCorner bnds) = Num 60 \<and> lng (neCorner bnds) = Undefined) \<and>
   gribGetFails (gribBoundsArgs ''f.grb'') = Inl ''grib_get failed'' \<and>
   getGribBounds gribGetFails ''f.grb'' = Inl ''grib_get failed'' \<and>
   refreshFrom 4 gribGetFails extractNoItems ''f.grb'' sampleState
     = (Inl ''grib_get failed'', sampleState)"
proof -
  have g: "gribGetPrints ''60 20 70'' (gribBoundsArgs ''f.grb'') = Inr ''60 20 70''"
    by (simp add: gribGetPrints_def)
  have f: "gribGetFails (gribBoundsArgs ''f.grb'') = Inl ''grib_get failed''"
    by (simp add: gribGetFails_def)
  have t0: "at_index (map parseFloat (split (CHR '' '') (trim (hd (split (CHR 0x0A) ''60 20 70''))))) 0 = Num 60"
    by code_simp
  have t3: "at_index (map parseFloat (split (CHR '' '') (trim (hd (split (CHR 0x0A) ''60 20 70''))))) 3 = Undefined"
    by code_simp
  from getGribBounds_fails_only_with_gribGet
    [of "gribGetPrints ''60 20 70''" "''f.grb''" "''60 20 70''" "[]" 0 "''e''" 4 extractNoItems sampleState]
    g t0 t3
  have p1: "\<exists>bnds. getGribBounds (gribGetPrints ''60 20 70'') ''f.grb'' = Inr bnds \<and>
      lat (swCorner bnds) = Num 60 \<and> lng (neCorner bnds) = Undefined"
    by auto
  from getGribBounds_fails_only_with_gribGet
    [of gribGetFails "''f.grb''" "''x''" "[]" 0 "''grib_get failed''" 4 extractNoItems sampleState] f
  have p2: "getGribBounds gribGetFails ''f.grb'' = Inl ''grib_get failed'' \<and>
   refreshFrom 4 gribGetFails extractNoItems ''f.grb'' sampleState
     = (Inl ''grib_get failed'', sampleState)"
    by blast
  from g f p1 p2 show ?thesis by simp
qed

subsection \<open>Grid: cross product, range and rounding\<close>

text \<open>
  Claim C4, the rounding and the upper bound. \<open>Math.round\<close> sends a tie to the larger
  integer: for the box from \<open>(-0.25, 0)\<close> to \<open>(-0.125, 0.5)\<close> and steps 0.2 and 0.5 the one
  generated point has latitude \<open>-0.2\<close>, where rounding half away from zero gives \<open>-0.3\<close>. The
  number of latitudes is taken from a quotient of doubles: for the latitudes 60 to 60.6
  and step 0.2 the quotient is above 3, four latitudes are produced and the last one is
  the upper bound 60.6 itself.
\<close>

theorem grid_tie_and_upper_bound:
  "createForecastLocations tieBox (toDouble (1 / 5)) (1 / 2)
     = [\<lparr>lat = toDouble (- 1 / 5), lng = 0\<rparr>] \<and>
   roundHalfAwayFromZero1 (- 1 / 4) = - 3 / 10 \<and>
   toDouble (- 1 / 5) \<noteq> toDouble (- 3 / 10) \<and>
   lat (neCorner upperBox) = Num (toDouble (303 / 5)) \<and>
   latitudes upperBox (toDouble (1 / 5))
     = [60, toDouble (301 / 5), toDouble (302 / 5), toDouble (303 / 5)]"
proof -
  have a: "roundHalfAwayFromZero1 (- 1 / 4) = - 3 / 10"
    by (simp add: roundHalfAwayFromZero1_def)
  have b: "lat (neCorner upperBox) = Num (toDouble (303 / 5))"
    by (simp add: upperBox_def)
  from sample_tie a sample_doubles(1) b sample_upper show ?thesis
    by blast
qed

text \<open>
  Claim C4. For every bounding box and steps, \<open>createForecastLocations\<close> returns the cross
  product of \<open>latitudes\<close> and \<open>longitudes\<close>: \<open>|latitudes| * |longitudes|\<close> points, the point of
  latitude \<open>i\<close> and longitude \<open>j\<close> at position \<open>i * |longitudes| + j\<close>, that is all longitudes
  for the first latitude, then all longitudes for the next. \<open>latitudes\<close> has an entry \<open>k\<close>
  exactly when \<open>k\<close> is below the quotient \<open>(end - start) / (latStep || 1)\<close> computed in doubles,
  and entry \<open>k\<close> is the start with \<open>latStep\<close> added \<open>k\<close> times in doubles, rounded; start and end
  are \<open>swCorner.lat\<close> and \<open>neCorner.lat\<close> for numeric corners (\<open>range_bounds\<close> in general);
  likewise \<open>longitudes\<close>. Every coordinate is rounded to the double nearest to \<open>m / 10\<close> for
  the integer \<open>m\<close> nearest to ten times the value, a tie going to the larger \<open>m\<close>
  (\<open>m - 0.5 \<le> 10 x < m + 0.5\<close>). A latitude span from 0 to 1 with step 0.2 gives the
  latitudes 0, 0.2, 0.4, 0.6, 0.8.
\<close>

theorem createForecastLocations_grid:
  "length (createForecastLocations b latStep lngStep)
     = length (latitudes b latStep) * length (longitudes b lngStep) \<and>
   (i < length (latitudes b latStep) \<and> j < length (longitudes b lngStep) \<longrightarrow>
      createForecastLocations b latStep lngStep ! (i * length (longitudes b lngStep) + j)
        = \<lparr>lat = latitudes b latStep ! i, lng = longitudes b lngStep ! j\<rparr>) \<and>
   (k < length (latitudes b latStep))
     = (of_nat k < fdiv (fsub (snd (range_bounds (lat (swCorner b)) (lat (neCorner b))))
                              (fst (range_bounds (lat (swCorner b)) (lat (neCorner b)))))
                        (if latStep = 0 then 1 else latStep)) \<and>
   (k < length (latitudes b latStep) \<longrightarrow>
      latitudes b latStep ! k
        = roundTo1Decimal (((\<lambda>x. fadd x latStep) ^^ k)
            (fst (range_bounds (lat (swCorner b)) (lat (neCorner b)))))) \<and>
   (k < length (longitudes b lngStep))
     = (of_nat k < fdiv (fsub (snd (range_bounds (lng (swCorner b)) (lng (neCorner b))))
                              (fst (range_bounds (lng (swCorner b)) (lng (neCorner b)))))
                        (if lngStep = 0 then 1 else lngStep)) \<and>
   (k < length (longitudes b lngStep) \<longrightarrow>
      longitudes b lngStep ! k
        = roundTo1Decimal (((\<lambda>x. fadd x lngStep) ^^ k)
            (fst (range_bounds (lng (swCorner b)) (lng (neCorner b)))))) \<and>
   range_bounds (Num s) (Num e) = (s, e) \<and>
   (\<exists>m::int. roundTo1Decimal x = toDouble (of_int m / 10) \<and>
             of_int m - 1 / 2 \<le> fmul x 10 \<and> fmul x 10 < of_int m + 1 / 2) \<and>
   (lat (swCorner b) = Num 0 \<and> lat (neCorner b) = Num 1 \<longrightarrow>
      latitudes b (toDouble (1 / 5))
        = [0, toDouble (1 / 5), toDouble (2 / 5), toDouble (3 / 5), toDouble (4 / 5)])"
proof -
  have a: "length (createForecastLocations b latStep lngStep)
     = length (latitudes b latStep) * length (longitudes b lngStep)"
    by (simp add: createForecastLocations_def length_concat_map_map)
  have b: "i < length (latitudes b latStep) \<and> j < length (longitudes b lngStep) \<longrightarrow>
      createForecastLocations b latStep lngStep ! (i * length (longitudes b lngStep) + j)
        = \<lparr>lat = latitudes b latStep ! i, lng = longitudes b lngStep ! j\<rparr>"
    unfolding createForecastLocations_def
    using nth_concat_map_map [of i "latitudes b latStep" j "longitudes b lngStep"
        "\<lambda>la lo. \<lparr>lat = la, lng = lo\<rparr>"]
    by blast
  note la = lodash_range_elements [of k "lat (swCorner b)" "lat (neCorner b)" latStep]
  note lo = lodash_range_elements [of k "lng (swCorner b)" "lng (neCorner b)" lngStep]
  have c1: "(k < length (latitudes b latStep))
     = (of_nat k < fdiv (fsub (snd (range_bounds (lat (swCorner b)) (lat (neCorner b))))
                              (fst (range_bounds (lat (swCorner b)) (lat (neCorner b)))))
                        (if latStep = 0 then 1 else latStep))"
    using la by (simp add: latitudes_def)
  have c2: "k < length (latitudes b latStep) \<longrightarrow>
      latitudes b latStep ! k
        = roundTo1Decimal (((\<lambda>x. fadd x latStep) ^^ k)
            (fst (range_bounds (lat (swCorner b)) (lat (neCorner b)))))"
    using la by (simp add: latitudes_def)
  have d1: "(k < length (longitudes b lngStep))
     = (of_nat k < fdiv (fsub (snd (range_bounds (lng (swCorner b)) (lng (neCorner b))))
                              (fst (range_bounds (lng (swCorner b)) (lng (neCorner b)))))
                        (if lngStep = 0 then 1 else lngStep))"
    using lo by (simp add: longitudes_def)
  have d2: "k < length (longitudes b lngStep) \<longrightarrow>
      longitudes b lngStep ! k
        = roundTo1Decimal (((\<lambda>x. fadd x lngStep) ^^ k)
            (fst (range_bounds (lng (swCorner b)) (lng (neCorner b)))))"
    using lo by (simp add: longitudes_def)
  have e: "range_bounds (Num s) (Num e) = (s, e)"
    by (rule range_bounds_numeric)
  have f: "\<exists>m::int. roundTo1Decimal x = toDouble (of_int m / 10) \<and>
             of_int m - 1 / 2 \<le> fmul x 10 \<and> fmul x 10 < of_int m + 1 / 2"
    by (rule roundTo1Decimal_tenth)
  have g: "lat (swCorner b) = Num 0 \<and> lat (neCorner b) = Num 1 \<longrightarrow>
      latitudes b (toDouble (1 / 5))
        = [0, toDouble (1 / 5), toDouble (2 / 5), toDouble (3 / 5), toDouble (4 / 5)]"
    by (simp add: latitudes_def sample_latitudes)
  show ?thesis
    by (intro conjI) (rule a, rule b, rule c1, rule c2, rule d1, rule d2, rule e, rule f, rule g)
qed

theorem createForecastLocations_grid_witness:
  "lat (swCorner unitBox) = Num 0 \<and> lat (neCorner unitBox) = Num 1 \<and>
   latitudes unitBox (toDouble (1 / 5))
     = [0, toDouble (1 / 5), toDouble (2 / 5), toDouble (3 / 5), toDouble (4 / 5)] \<and>
   longitudes unitBox (1 / 2) = [0, 1 / 2] \<and>
   length (createForecastLocations unitBox (toDouble (1 / 5)) (1 / 2)) = 10 \<and>
   (1::nat) < length (latitudes unitBox (toDouble (1 / 5))) \<and>
   (1::nat) < length (longitudes unitBox (1 / 2)) \<and>
   createForecastLocations unitBox (toDouble (1 / 5)) (1 / 2) ! 3
     = \<lparr>lat = toDouble (1 / 5), lng = 1 / 2\<rparr> \<and>
   latitudes unitBox (toDouble (1 / 5)) ! 1
     = roundTo1Decimal (((\<lambda>x. fadd x (toDouble (1 / 5))) ^^ 1)
         (fst (range_bounds (lat (swCorner unitBox)) (lat (neCorner unitBox)))))"
proof -
  have c: "lat (swCorner unitBox) = Num 0 \<and> lat (neCorner unitBox) = Num 1"
    by (simp add: unitBox_def)
  note lo = sample_longitudes
  note th = createForecastLocations_grid
    [of unitBox "toDouble (1 / 5)" "1 / 2" 1 1 1 0 1 0]
  from th c have la: "latitudes unitBox (toDouble (1 / 5))
     = [0, toDouble (1 / 5), toDouble (2 / 5), toDouble (3 / 5), toDouble (4 / 5)]"
    by blast
  from th have len: "length (createForecastLocations unitBox (toDouble (1 / 5)) (1 / 2))
     = length (latitudes unitBox (toDouble (1 / 5))) * length (longitudes unitBox (1 / 2))"
    by blast
  from th have ix: "1 < length (latitudes unitBox (toDouble (1 / 5))) \<and>
      1 < length (longitudes unitBox (1 / 2)) \<longrightarrow>
      createForecastLocations unitBox (toDouble (1 / 5)) (1 / 2)
        ! (1 * length (longitudes unitBox (1 / 2)) + 1)
        = \<lparr>lat = latitudes unitBox (toDouble (1 / 5)) ! 1, lng = longitudes unitBox (1 / 2) ! 1\<rparr>"
    by blast
  from th have el: "1 < length (latitudes unitBox (toDouble (1 / 5))) \<longrightarrow>
      latitudes unitBox (toDouble (1 / 5)) ! 1
        = roundTo1Decimal (((\<lambda>x. fadd x (toDouble (1 / 5))) ^^ 1)
            (fst (range_bounds (lat (swCorner unitBox)) (lat (neCorner unitBox)))))"
    by blast
  have l1: "(1::nat) < length (latitudes unitBox (toDouble (1 / 5))) \<and>
            (1::nat) < length (longitudes unitBox (1 / 2))"
    by (simp add: la lo)
  have ix': "createForecastLocations unitBox (toDouble (1 / 5)) (1 / 2) ! 3
     = \<lparr>lat = toDouble (1 / 5), lng = 1 / 2\<rparr>"
    using ix l1 by (simp add: la lo numeral_3_eq_3)
  have len': "length (createForecastLocations unitBox (toDouble (1 / 5)) (1 / 2)) = 10"
    using len by (simp add: la lo)
  from el l1 have el': "latitudes unitBox (toDouble (1 / 5)) ! 1
        = roundTo1Decimal (((\<lambda>x. fadd x (toDouble (1 / 5))) ^^ 1)
            (fst (range_bounds (lat (swCorner unitBox)) (lat (neCorner unitBox)))))"
    by blast
  from c la lo len' l1 ix' el' show ?thesis
    by (intro conjI) (simp_all only: simp_thms)
qed

end
